theory Spec2Isabelle
  imports Main "HOL-Library.Word" "HOL-Library.Sublist"
begin

section \<open>Strings and values of the host language\<close>

text \<open>
  A JavaScript string is a sequence of UTF-16 code units. String literals of the
  source that are plain ASCII are written with \<open>js\<close>; the few characters outside ASCII
  that the templates contain are given by their code unit.
\<close>

type_synonym unit16 = "16 word"
type_synonym jsstring = "unit16 list"

definition js :: "string \<Rightarrow> jsstring" where
  "js s = map of_char s"

definition DQUOTE :: unit16 where "DQUOTE = 0x22"
definition RSQUO :: unit16 where "RSQUO = 0x2019"
definition LDQUO :: unit16 where "LDQUO = 0x201C"
definition RDQUO :: unit16 where "RDQUO = 0x201D"

text \<open>
  \<open>isSpace\<close> is the class \<open>\s\<close> of a regular expression, which is also what
  \<open>String.prototype.trim\<close> strips: WhiteSpace and LineTerminator of ECMAScript.
  \<open>isWordChar\<close> is the class \<open>\w\<close> (no \<open>u\<close> or \<open>i\<close> flag): \<open>[A-Za-z0-9_]\<close>.
\<close>

definition isSpace :: "unit16 \<Rightarrow> bool" where
  "isSpace c = ((0x09 \<le> c \<and> c \<le> 0x0D) \<or> c = 0x20 \<or> c = 0xA0 \<or> c = 0x1680
     \<or> (0x2000 \<le> c \<and> c \<le> 0x200A) \<or> c = 0x2028 \<or> c = 0x2029 \<or> c = 0x202F
     \<or> c = 0x205F \<or> c = 0x3000 \<or> c = 0xFEFF)"

definition isWordChar :: "unit16 \<Rightarrow> bool" where
  "isWordChar c = ((0x61 \<le> c \<and> c \<le> 0x7A) \<or> (0x41 \<le> c \<and> c \<le> 0x5A)
     \<or> (0x30 \<le> c \<and> c \<le> 0x39) \<or> c = 0x5F)"

definition trim :: "jsstring \<Rightarrow> jsstring" where
  "trim s = rev (dropWhile isSpace (rev (dropWhile isSpace s)))"

text \<open>\<open>hay.includes(tok)\<close>: the search for \<open>tok\<close> at every position of \<open>hay\<close>.\<close>

fun includes_str :: "jsstring \<Rightarrow> jsstring \<Rightarrow> bool" where
  "includes_str [] tok = (tok = [])"
| "includes_str (c # cs) tok = (prefix tok (c # cs) \<or> includes_str cs tok)"

text \<open>
  \<open>String.prototype.toLowerCase\<close> is the Unicode case conversion of the host. Its table
  is not part of the repository, so the functions that call it take it as the parameter
  \<open>toLowerCase\<close>, and what is proved of them holds for every such function.
  \<open>toLowerCaseASCII\<close> is the conversion on Basic Latin, where it maps \<open>A\<close>..\<open>Z\<close> to
  \<open>a\<close>..\<open>z\<close> and nothing else; it serves to evaluate the functions at ASCII inputs.
\<close>

type_synonym caseConversion = "jsstring \<Rightarrow> jsstring"

definition toLowerCaseASCII :: caseConversion where
  "toLowerCaseASCII s = map (\<lambda>c. if 0x41 \<le> c \<and> c \<le> 0x5A then c + 0x20 else c) s"

text \<open>
  The primitive values a caller can pass where the source expects a string. A number is
  an IEEE 754 double, given by its sign, exponent and fraction bits. Objects are left
  out: what \<open>normalize\<close> does with one depends on the methods the object carries.
\<close>

datatype double = Double (sign: bool) (exponent: "11 word") (fraction: "52 word")

definition isNaN :: "double \<Rightarrow> bool" where
  "isNaN d = (exponent d = 0x7FF \<and> fraction d \<noteq> 0)"

definition isZero :: "double \<Rightarrow> bool" where
  "isZero d = (exponent d = 0 \<and> fraction d = 0)"

datatype jsval =
    VUndefined
  | VNull
  | VBoolean bool
  | VNumber double
  | VBigInt int
  | VString jsstring
  | VSymbol nat

fun toBoolean :: "jsval \<Rightarrow> bool" where
  "toBoolean VUndefined = False"
| "toBoolean VNull = False"
| "toBoolean (VBoolean b) = b"
| "toBoolean (VNumber d) = (\<not> isZero d \<and> \<not> isNaN d)"
| "toBoolean (VBigInt i) = (i \<noteq> 0)"
| "toBoolean (VString s) = (s \<noteq> [])"
| "toBoolean (VSymbol n) = True"

datatype error = TypeError

section \<open>normalize\<close>

text \<open>
  \<^verbatim>\<open>function normalize(s) { return (s || '').toLowerCase().trim(); }\<close>

  \<open>s || ''\<close> is \<open>s\<close> when \<open>s\<close> is truthy and the empty string otherwise. A truthy
  primitive that is not a string has no method \<open>toLowerCase\<close>, and the call raises a
  TypeError.
\<close>

definition normalize :: "caseConversion \<Rightarrow> jsval \<Rightarrow> error + jsstring" where
  "normalize toLowerCase s =
     (case (if toBoolean s then s else VString []) of
        VString x \<Rightarrow> Inr (trim (toLowerCase x))
      | _ \<Rightarrow> Inl TypeError)"

section \<open>detectIntent\<close>

text \<open>
  The four regular expressions of \<open>detectIntent\<close> all have the shape
  \<open>/\b(w1|w2|...|wn)\b/\<close> with literal alternatives. \<open>test\<close> looks for a match starting
  at every position of the text, from the left; at a position the leading \<open>\b\<close> must
  hold, and the alternatives are tried in order, each one followed by the trailing
  \<open>\b\<close>, with backtracking to the next alternative when that fails.

  A position of the text is given by the text before it (\<open>seen\<close>) and the text from it
  on (\<open>rest\<close>).
\<close>

definition wordBoundary :: "jsstring \<Rightarrow> jsstring \<Rightarrow> bool" where
  "wordBoundary seen rest =
     ((seen \<noteq> [] \<and> isWordChar (last seen)) \<noteq> (rest \<noteq> [] \<and> isWordChar (hd rest)))"

definition matchHere :: "jsstring list \<Rightarrow> jsstring \<Rightarrow> jsstring \<Rightarrow> bool" where
  "matchHere alts seen rest =
     (wordBoundary seen rest \<and>
      list_ex (\<lambda>w. prefix w rest \<and> wordBoundary (seen @ w) (drop (length w) rest)) alts)"

fun searchFrom :: "jsstring list \<Rightarrow> jsstring \<Rightarrow> jsstring \<Rightarrow> bool" where
  "searchFrom alts seen [] = matchHere alts seen []"
| "searchFrom alts seen (c # cs) =
     (matchHere alts seen (c # cs) \<or> searchFrom alts (seen @ [c]) cs)"

definition regexTest :: "jsstring list \<Rightarrow> jsstring \<Rightarrow> bool" where
  "regexTest alts n = searchFrom alts [] n"

definition OOO_PATTERN :: "jsstring list" where
  "OOO_PATTERN = [js ''ooo'', js ''out of office'', js ''out-of-office'', js ''vacation'',
     js ''leave'', js ''out of the office'']"

definition STATUS_PATTERN :: "jsstring list" where
  "STATUS_PATTERN = [js ''stakeholder'', js ''update'', js ''status'', js ''weekly update'',
     js ''progress report'']"

definition PRODUCT_REQ_PATTERN :: "jsstring list" where
  "PRODUCT_REQ_PATTERN = [js ''user story'', js ''acceptance criteria'', js ''ac'',
     js ''feature request'']"

definition PRD_PATTERN :: "jsstring list" where
  "PRD_PATTERN = [js ''prd'', js ''requirements doc'', js ''product requirements'']"

definition detectIntent :: "caseConversion \<Rightarrow> jsval \<Rightarrow> error + jsstring" where
  "detectIntent toLowerCase need =
     (case normalize toLowerCase need of
        Inl e \<Rightarrow> Inl e
      | Inr n \<Rightarrow>
          if regexTest OOO_PATTERN n then Inr (js ''ooo'')
          else if regexTest STATUS_PATTERN n then Inr (js ''status_update'')
          else if regexTest PRODUCT_REQ_PATTERN n then Inr (js ''product_req'')
          else if regexTest PRD_PATTERN n then Inr (js ''prd'')
          else Inr (js ''generic''))"

section \<open>The prompt builders\<close>

text \<open>
  The object \<open>{title, text}\<close> that every builder returns, with its fields named
  \<open>gtitle\<close> and \<open>gtext\<close>. Each builder is one expression: a fixed title and the
  concatenation of the template's literal pieces with the four arguments. The parameter
  \<open>length\<close> of the source is \<open>length'\<close> here.
\<close>

record generated =
  gtitle :: jsstring
  gtext :: jsstring

definition buildOOOPrompt :: "jsstring \<Rightarrow> jsstring \<Rightarrow> jsstring \<Rightarrow> jsstring \<Rightarrow> generated" where
  "buildOOOPrompt need tone length' format =
     \<lparr> gtitle = js ''Generated: Out-of-office message'',
       gtext =
         js ''You are an expert communications assistant.\<newline>\<newline>'' @
         js ''Task:\<newline>Create an out-of-office (OOO) message based on the user'' @ [RSQUO] @ js ''s input.\<newline>\<newline>'' @
         js ''User input:\<newline>'' @ [DQUOTE] @ need @ [DQUOTE] @ js ''\<newline>\<newline>'' @
         js ''Requirements:\<newline>'' @
         js ''- Tone: '' @ tone @ js ''\<newline>'' @
         js ''- Length: '' @ length' @ js ''\<newline>'' @
         js ''- Channel/format: '' @ format @ js ''\<newline>'' @
         js ''- Include: dates (if mentioned), who to contact for urgent issues, and what the sender will do when back.\<newline>'' @
         js ''- If dates are missing, ask 2 quick questions at the end OR provide 2 variants (with placeholders).\<newline>\<newline>'' @
         js ''Output:\<newline>1) Final OOO message (ready to copy/paste)\<newline>2) Optional: 1 shorter variant'' \<rparr>"

definition buildGenericPrompt :: "jsstring \<Rightarrow> jsstring \<Rightarrow> jsstring \<Rightarrow> jsstring \<Rightarrow> generated" where
  "buildGenericPrompt need tone length' format =
     \<lparr> gtitle = js ''Generated: Structured prompt from your need'',
       gtext =
         js ''You are a senior Product + Delivery assistant.\<newline>\<newline>'' @
         js ''Goal:\<newline>Help me with this request:\<newline>'' @ [DQUOTE] @ need @ [DQUOTE] @ js ''\<newline>\<newline>'' @
         js ''Instructions:\<newline>'' @
         js ''- Ask up to 3 clarifying questions ONLY if absolutely required. Otherwise proceed with reasonable assumptions (and list them).\<newline>'' @
         js ''- Keep the tone '' @ tone @ js ''.\<newline>'' @
         js ''- Keep the length '' @ length' @ js ''.\<newline>'' @
         js ''- Output in '' @ format @ js '' format.\<newline>\<newline>'' @
         js ''Output structure:\<newline>'' @
         js ''1) Assumptions (if any)\<newline>'' @
         js ''2) The main deliverable (fully written)\<newline>'' @
         js ''3) Next steps / checklist'' \<rparr>"

definition buildStatusUpdatePrompt :: "jsstring \<Rightarrow> jsstring \<Rightarrow> jsstring \<Rightarrow> jsstring \<Rightarrow> generated" where
  "buildStatusUpdatePrompt need tone length' format =
     \<lparr> gtitle = js ''Generated: Stakeholder status update'',
       gtext =
         js ''You are an executive communications assistant.\<newline>\<newline>'' @
         js ''Task:\<newline>Craft a status update based on the user'' @ [RSQUO] @ js ''s input.\<newline>\<newline>'' @
         js ''User input:\<newline>'' @ [DQUOTE] @ need @ [DQUOTE] @ js ''\<newline>\<newline>'' @
         js ''Requirements:\<newline>'' @
         js ''- Tone: '' @ tone @ js ''\<newline>'' @
         js ''- Length: '' @ length' @ js ''\<newline>'' @
         js ''- Channel/format: '' @ format @ js ''\<newline>'' @
         js ''- Summarise progress, blockers, and next steps clearly.\<newline>'' @
         js ''- Highlight any risks or escalations.\<newline>\<newline>'' @
         js ''Output:\<newline>1) Status update message (ready to send)\<newline>2) Optional: bullet points summarising key takeaways'' \<rparr>"

definition buildProductReqPrompt :: "jsstring \<Rightarrow> jsstring \<Rightarrow> jsstring \<Rightarrow> jsstring \<Rightarrow> generated" where
  "buildProductReqPrompt need tone length' format =
     \<lparr> gtitle = js ''Generated: User story / requirement'',
       gtext =
         js ''You are a product discovery assistant.\<newline>\<newline>'' @
         js ''Task:\<newline>Create a user story or requirement based on the user'' @ [RSQUO] @ js ''s input.\<newline>\<newline>'' @
         js ''User input:\<newline>'' @ [DQUOTE] @ need @ [DQUOTE] @ js ''\<newline>\<newline>'' @
         js ''Requirements:\<newline>'' @
         js ''- Tone: '' @ tone @ js ''\<newline>'' @
         js ''- Length: '' @ length' @ js ''\<newline>'' @
         js ''- Channel/format: '' @ format @ js ''\<newline>'' @
         js ''- Use the template: '' @ [LDQUO] @ js ''As a [persona], I want [need] so that [reason]'' @ [RDQUO] @ js ''.\<newline>'' @
         js ''- Define acceptance criteria clearly.\<newline>\<newline>'' @
         js ''Output:\<newline>1) User story statement\<newline>2) Acceptance criteria (bulleted)'' \<rparr>"

definition buildPrdPrompt :: "jsstring \<Rightarrow> jsstring \<Rightarrow> jsstring \<Rightarrow> jsstring \<Rightarrow> generated" where
  "buildPrdPrompt need tone length' format =
     \<lparr> gtitle = js ''Generated: Product Requirements Document (PRD)'',
       gtext =
         js ''You are a product strategy assistant.\<newline>\<newline>'' @
         js ''Task:\<newline>Draft a Product Requirements Document (PRD) based on the user'' @ [RSQUO] @ js ''s input.\<newline>\<newline>'' @
         js ''User input:\<newline>'' @ [DQUOTE] @ need @ [DQUOTE] @ js ''\<newline>\<newline>'' @
         js ''Requirements:\<newline>'' @
         js ''- Tone: '' @ tone @ js ''\<newline>'' @
         js ''- Length: '' @ length' @ js ''\<newline>'' @
         js ''- Channel/format: '' @ format @ js ''\<newline>'' @
         js ''- Include sections: Problem statement, Goals, Scope (in/out), User stories, Success metrics, Risks.\<newline>'' @
         js ''- Summarise stakeholders and timeline if applicable.\<newline>\<newline>'' @
         js ''Output:\<newline>1) PRD outline\<newline>2) Checklist of next steps'' \<rparr>"

section \<open>The prompt library\<close>

text \<open>
  A record of \<open>prompts.json\<close>: six text fields, each of which may be missing
  (\<open>None\<close> stands for an absent or \<open>null\<close> field); the field \<open>output\<close> of the source
  is \<open>output'\<close> here. The global \<open>PROMPTS\<close> is the only variable of the program that
  outlives a call; it is the state that \<open>bestLibraryMatch\<close> reads.
\<close>

record promptRecord =
  title :: "jsstring option"
  instruction :: "jsstring option"
  inputs :: "jsstring option"
  output' :: "jsstring option"
  success_criteria :: "jsstring option"
  follow_up :: "jsstring option"

record state =
  PROMPTS :: "promptRecord list"

text \<open>\<open>p.field || ''\<close>: the field when it is present and not empty, else the empty string.\<close>

definition orEmpty :: "jsstring option \<Rightarrow> jsstring" where
  "orEmpty f = (case f of None \<Rightarrow> [] | Some s \<Rightarrow> if s \<noteq> [] then s else [])"

text \<open>
  \<open>q.split(/\s+/)\<close>: the text is cut at every maximal run of white space. A run at the
  start or at the end of the text leaves an empty piece there, and the empty text gives
  one empty piece. \<open>inSep\<close> says that the scan is inside a run, \<open>cur\<close> is the piece
  read so far.
\<close>

fun splitSpaces :: "bool \<Rightarrow> jsstring \<Rightarrow> jsstring \<Rightarrow> jsstring list" where
  "splitSpaces inSep cur [] = [cur]"
| "splitSpaces inSep cur (c # cs) =
     (if isSpace c then
        (if inSep then splitSpaces True cur cs else cur # splitSpaces True [] cs)
      else splitSpaces False (cur @ [c]) cs)"

definition tokenize :: "jsstring \<Rightarrow> jsstring list" where
  "tokenize q = filter (\<lambda>t. t \<noteq> []) (splitSpaces False [] q)"

text \<open>
  The inner loop of \<open>bestLibraryMatch\<close>:
  \<^verbatim>\<open>for (const tok of tokens) { if (hay.includes(tok)) score += 1; }\<close>
  A score counts tokens of the query, so it is a natural number.
\<close>

fun scoreTokens :: "jsstring \<Rightarrow> jsstring list \<Rightarrow> nat \<Rightarrow> nat" where
  "scoreTokens hay [] score = score"
| "scoreTokens hay (tok # toks) score =
     scoreTokens hay toks (if includes_str hay tok then score + 1 else score)"

text \<open>The text of a record that is searched, \<open>hay\<close> in the source.\<close>

definition haystack :: "caseConversion \<Rightarrow> promptRecord \<Rightarrow> error + jsstring" where
  "haystack toLowerCase p =
     normalize toLowerCase (VString
       (orEmpty (title p) @ js '' '' @ orEmpty (instruction p) @ js '' '' @ orEmpty (output' p)))"

text \<open>The score of one record: the first half of the body of the outer loop.\<close>

definition scoreRecord :: "caseConversion \<Rightarrow> jsstring list \<Rightarrow> promptRecord \<Rightarrow> error + nat" where
  "scoreRecord toLowerCase tokens p =
     (case haystack toLowerCase p of
        Inl e \<Rightarrow> Inl e
      | Inr hay \<Rightarrow> Inr (scoreTokens hay tokens 0))"

text \<open>
  The outer loop, \<open>for (const p of PROMPTS)\<close>, with the variables \<open>best\<close> and
  \<open>bestScore\<close> that it updates; \<open>null\<close> is \<open>None\<close>.
\<close>

fun scanPrompts ::
  "caseConversion \<Rightarrow> jsstring list \<Rightarrow> promptRecord list \<Rightarrow> promptRecord option \<Rightarrow> nat
     \<Rightarrow> error + (promptRecord option \<times> nat)" where
  "scanPrompts toLowerCase tokens [] best bestScore = Inr (best, bestScore)"
| "scanPrompts toLowerCase tokens (p # ps) best bestScore =
     (case scoreRecord toLowerCase tokens p of
        Inl e \<Rightarrow> Inl e
      | Inr score \<Rightarrow>
          if score > bestScore then scanPrompts toLowerCase tokens ps (Some p) score
          else scanPrompts toLowerCase tokens ps best bestScore)"

text \<open>
  \<open>bestLibraryMatch\<close> returns its result together with the state it leaves; an
  exception leaves the state as it was.
\<close>

definition bestLibraryMatch ::
  "caseConversion \<Rightarrow> jsval \<Rightarrow> state \<Rightarrow> (error + promptRecord option) \<times> state" where
  "bestLibraryMatch toLowerCase need st =
     (case normalize toLowerCase need of
        Inl e \<Rightarrow> (Inl e, st)
      | Inr q \<Rightarrow>
          if q = [] \<or> PROMPTS st = [] then (Inr None, st)
          else
            (case scanPrompts toLowerCase (tokenize q) (PROMPTS st) None 0 of
               Inl e \<Rightarrow> (Inl e, st)
             | Inr (best, bestScore) \<Rightarrow>
                 (Inr (if bestScore > 0 then best else None), st)))"

definition formatLibraryPrompt :: "promptRecord \<Rightarrow> jsstring" where
  "formatLibraryPrompt p =
     js ''Instruction:\<newline>'' @ orEmpty (instruction p) @ js ''\<newline>\<newline>'' @
     js ''Inputs:\<newline>'' @ orEmpty (inputs p) @ js ''\<newline>\<newline>'' @
     js ''Output:\<newline>'' @ orEmpty (output' p) @ js ''\<newline>\<newline>'' @
     js ''Success criteria:\<newline>'' @ orEmpty (success_criteria p) @ js ''\<newline>\<newline>'' @
     js ''Follow-up:\<newline>'' @ orEmpty (follow_up p)"

section \<open>The click handlers\<close>

text \<open>
  \<open>renderResult(title, text)\<close> shows a title and a text; a handler is modelled by what it
  shows. The values read from the page (\<open>needInput\<close>, \<open>tone\<close>, \<open>length\<close>, \<open>format\<close>) are
  strings. \<open>buildForIntent\<close> is the \<open>switch (intent)\<close> of the first handler.
\<close>

definition renderResult :: "jsstring \<Rightarrow> jsstring \<Rightarrow> generated" where
  "renderResult t x = \<lparr> gtitle = t, gtext = x \<rparr>"

definition buildForIntent ::
  "jsstring \<Rightarrow> jsstring \<Rightarrow> jsstring \<Rightarrow> jsstring \<Rightarrow> jsstring \<Rightarrow> generated" where
  "buildForIntent intent need tone length' format =
     (if intent = js ''ooo'' then buildOOOPrompt need tone length' format
      else if intent = js ''status_update'' then buildStatusUpdatePrompt need tone length' format
      else if intent = js ''product_req'' then buildProductReqPrompt need tone length' format
      else if intent = js ''prd'' then buildPrdPrompt need tone length' format
      else buildGenericPrompt need tone length' format)"

definition generateFromNeedClick ::
  "caseConversion \<Rightarrow> jsstring \<Rightarrow> jsstring \<Rightarrow> jsstring \<Rightarrow> jsstring \<Rightarrow> error + generated" where
  "generateFromNeedClick toLowerCase needInput tone length' format =
     (let need = trim needInput in
      if need = [] then
        Inr (renderResult (js ''Tell me what you need'')
          (js ''Type a short description above (e.g., '' @ [LDQUO] @
           js ''Generate an OOO message for next week...'' @ [RDQUO] @ js '' ).''))
      else
        (case detectIntent toLowerCase (VString need) of
           Inl e \<Rightarrow> Inl e
         | Inr intent \<Rightarrow>
             (let generated = buildForIntent intent need tone length' format in
              Inr (renderResult (gtitle generated) (gtext generated)))))"

definition generateFromLibraryClick ::
  "caseConversion \<Rightarrow> jsstring \<Rightarrow> state \<Rightarrow> (error + generated) \<times> state" where
  "generateFromLibraryClick toLowerCase needInput st =
     (let need = trim needInput in
      case bestLibraryMatch toLowerCase (VString need) st of
        (Inl e, st') \<Rightarrow> (Inl e, st')
      | (Inr None, st') \<Rightarrow>
          (Inr (renderResult (js ''No library match found'')
             (js ''I couldn'' @ [RSQUO] @ js ''t find a close match in the current prompt library. Use '' @ [LDQUO] @ js ''Generate from my need'' @ [RDQUO] @ js '' instead.'')), st')
      | (Inr (Some match), st') \<Rightarrow>
          (Inr (renderResult
             (case title match of
                None \<Rightarrow> js ''Library Prompt''
              | Some t \<Rightarrow> if t \<noteq> [] then t else js ''Library Prompt'')
             (formatLibraryPrompt match)), st'))"

section \<open>The library as it is loaded\<close>

text \<open>
  \<^verbatim>\<open>PROMPTS = Array.isArray(data) ? data : [];\<close>

  \<open>loadPrompts\<close> keeps the array that \<open>prompts.json\<close> holds, whatever its elements
  are, and falls back to the empty array when the file cannot be fetched or parsed
  (\<open>FetchFailed\<close>) and when it holds something that is not an array (\<open>NotAnArray\<close>). An
  element of the array is a record or \<open>null\<close>. The functions above take the library as
  a list of records; the following are the same loops over the array as it is stored,
  where \<open>p.title\<close> at a \<open>null\<close> element raises a TypeError.
\<close>

datatype libraryEntry = NullEntry | RecordEntry promptRecord

datatype fetched = FetchFailed | NotAnArray | ArrayOf "libraryEntry list"

definition loadPrompts :: "fetched \<Rightarrow> libraryEntry list" where
  "loadPrompts res =
     (case res of
        ArrayOf data \<Rightarrow> data
      | NotAnArray \<Rightarrow> []
      | FetchFailed \<Rightarrow> [])"

definition haystackOfEntry :: "caseConversion \<Rightarrow> libraryEntry \<Rightarrow> error + jsstring" where
  "haystackOfEntry toLowerCase p =
     (case p of
        NullEntry \<Rightarrow> Inl TypeError
      | RecordEntry r \<Rightarrow> haystack toLowerCase r)"

definition scoreEntry :: "caseConversion \<Rightarrow> jsstring list \<Rightarrow> libraryEntry \<Rightarrow> error + nat" where
  "scoreEntry toLowerCase tokens p =
     (case haystackOfEntry toLowerCase p of
        Inl e \<Rightarrow> Inl e
      | Inr hay \<Rightarrow> Inr (scoreTokens hay tokens 0))"

fun scanEntries ::
  "caseConversion \<Rightarrow> jsstring list \<Rightarrow> libraryEntry list \<Rightarrow> libraryEntry option \<Rightarrow> nat
     \<Rightarrow> error + (libraryEntry option \<times> nat)" where
  "scanEntries toLowerCase tokens [] best bestScore = Inr (best, bestScore)"
| "scanEntries toLowerCase tokens (p # ps) best bestScore =
     (case scoreEntry toLowerCase tokens p of
        Inl e \<Rightarrow> Inl e
      | Inr score \<Rightarrow>
          if score > bestScore then scanEntries toLowerCase tokens ps (Some p) score
          else scanEntries toLowerCase tokens ps best bestScore)"

definition bestLibraryMatchLoaded ::
  "caseConversion \<Rightarrow> jsval \<Rightarrow> libraryEntry list \<Rightarrow> error + libraryEntry option" where
  "bestLibraryMatchLoaded toLowerCase need prompts =
     (case normalize toLowerCase need of
        Inl e \<Rightarrow> Inl e
      | Inr q \<Rightarrow>
          if q = [] \<or> prompts = [] then Inr None
          else
            (case scanEntries toLowerCase (tokenize q) prompts None 0 of
               Inl e \<Rightarrow> Inl e
             | Inr (best, bestScore) \<Rightarrow> Inr (if bestScore > 0 then best else None)))"

section \<open>The haystack as the specification words it\<close>

text \<open>
  The specification describes the searched text as the normalized concatenation of the
  title, instruction and output fields. Taken to the letter, that text and the score it
  gives are the following; they are compared with \<open>haystack\<close> and \<open>scoreRecord\<close> below.
\<close>

definition spec_haystack :: "caseConversion \<Rightarrow> promptRecord \<Rightarrow> jsstring" where
  "spec_haystack toLowerCase p =
     trim (toLowerCase (orEmpty (title p) @ orEmpty (instruction p) @ orEmpty (output' p)))"

definition spec_score :: "caseConversion \<Rightarrow> jsstring list \<Rightarrow> promptRecord \<Rightarrow> nat" where
  "spec_score toLowerCase tokens p =
     length (filter (\<lambda>tok. includes_str (spec_haystack toLowerCase p) tok) tokens)"

section \<open>Example data\<close>

definition releaseNotes :: promptRecord where
  "releaseNotes = \<lparr> title = Some (js ''Release''), instruction = Some (js ''notes template''),
     inputs = None, output' = None, success_criteria = None, follow_up = None \<rparr>"

definition recordA :: promptRecord where
  "recordA = \<lparr> title = Some (js ''A''), instruction = None, inputs = None, output' = None,
     success_criteria = None, follow_up = None \<rparr>"

definition recordB :: promptRecord where
  "recordB = \<lparr> title = Some (js ''B planning''), instruction = None, inputs = None,
     output' = None, success_criteria = None, follow_up = None \<rparr>"

definition recordC :: promptRecord where
  "recordC = \<lparr> title = Some (js ''C planning''), instruction = None, inputs = None,
     output' = None, success_criteria = None, follow_up = None \<rparr>"

definition exampleState :: state where
  "exampleState = \<lparr> PROMPTS = [recordA, recordB, recordC] \<rparr>"

section \<open>Facts about strings\<close>

lemma includes_str_sublist: "includes_str hay tok = sublist tok hay"
  by (induction hay) (simp_all add: sublist_Cons_right)

lemma includes_str_iff: "includes_str hay tok \<longleftrightarrow> (\<exists>ps ss. hay = ps @ tok @ ss)"
  by (simp add: includes_str_sublist sublist_def)

lemma includes_str_here: "includes_str (tok @ ss) tok"
  unfolding includes_str_iff by (rule exI [of _ "[]"]) simp

lemma includes_str_skip: "includes_str hay tok \<Longrightarrow> includes_str (ps @ hay) tok"
  unfolding includes_str_iff by (metis append.assoc)

lemma includes_str_last: "includes_str (ps @ tok) tok"
  unfolding includes_str_iff by (rule exI [of _ ps], rule exI [of _ "[]"]) simp

section \<open>Properties of the builders\<close>

text \<open>
  C4. For any strings \<open>need\<close>, \<open>tone\<close>, \<open>length\<close> and \<open>format\<close>, the text that
  \<open>buildOOOPrompt\<close> returns contains each of the four as a substring, unchanged, and
  its title is the fixed string \<open>Generated: Out-of-office message\<close>.
\<close>

theorem buildOOOPrompt_echoes_inputs:
  "includes_str (gtext (buildOOOPrompt need tone length' format)) need \<and>
   includes_str (gtext (buildOOOPrompt need tone length' format)) tone \<and>
   includes_str (gtext (buildOOOPrompt need tone length' format)) length' \<and>
   includes_str (gtext (buildOOOPrompt need tone length' format)) format \<and>
   gtitle (buildOOOPrompt need tone length' format) = js ''Generated: Out-of-office message''"
proof (intro conjI)
  show "includes_str (gtext (buildOOOPrompt need tone length' format)) need"
    unfolding buildOOOPrompt_def generated.select_convs
    by (rule includes_str_here | rule includes_str_skip)+
  show "includes_str (gtext (buildOOOPrompt need tone length' format)) tone"
    unfolding buildOOOPrompt_def generated.select_convs
    by (rule includes_str_here | rule includes_str_skip)+
  show "includes_str (gtext (buildOOOPrompt need tone length' format)) length'"
    unfolding buildOOOPrompt_def generated.select_convs
    by (rule includes_str_here | rule includes_str_skip)+
  show "includes_str (gtext (buildOOOPrompt need tone length' format)) format"
    unfolding buildOOOPrompt_def generated.select_convs
    by (rule includes_str_here | rule includes_str_skip)+
  show "gtitle (buildOOOPrompt need tone length' format) = js ''Generated: Out-of-office message''"
    by (simp add: buildOOOPrompt_def)
qed

section \<open>Properties of the formatter\<close>

text \<open>
  C5. For every record, whichever of its fields are missing or empty,
  \<open>formatLibraryPrompt\<close> returns one text made of the five headers \<open>Instruction:\<close>,
  \<open>Inputs:\<close>, \<open>Output:\<close>, \<open>Success criteria:\<close> and \<open>Follow-up:\<close> in this order, each
  followed by a line break and the field's text, which is empty when the field is
  missing; two line breaks separate the sections. The function has no failing branch.
\<close>

theorem formatLibraryPrompt_sections:
  "formatLibraryPrompt p =
     js ''Instruction:'' @ js ''\<newline>'' @ (case instruction p of None \<Rightarrow> [] | Some s \<Rightarrow> s) @
     js ''\<newline>\<newline>'' @
     js ''Inputs:'' @ js ''\<newline>'' @ (case inputs p of None \<Rightarrow> [] | Some s \<Rightarrow> s) @
     js ''\<newline>\<newline>'' @
     js ''Output:'' @ js ''\<newline>'' @ (case output' p of None \<Rightarrow> [] | Some s \<Rightarrow> s) @
     js ''\<newline>\<newline>'' @
     js ''Success criteria:'' @ js ''\<newline>'' @
       (case success_criteria p of None \<Rightarrow> [] | Some s \<Rightarrow> s) @
     js ''\<newline>\<newline>'' @
     js ''Follow-up:'' @ js ''\<newline>'' @ (case follow_up p of None \<Rightarrow> [] | Some s \<Rightarrow> s)"
  by (simp add: formatLibraryPrompt_def orEmpty_def js_def split: option.split)

theorem formatLibraryPrompt_sections_witness:
  "formatLibraryPrompt
     \<lparr> title = Some (js ''Sprint planning''), instruction = None, inputs = Some [],
       output' = None, success_criteria = None, follow_up = None \<rparr> =
   js ''Instruction:\<newline>\<newline>\<newline>Inputs:\<newline>\<newline>\<newline>Output:\<newline>\<newline>\<newline>Success criteria:\<newline>\<newline>\<newline>Follow-up:\<newline>''"
  using formatLibraryPrompt_sections
    [of "\<lparr> title = Some (js ''Sprint planning''), instruction = None, inputs = Some [],
       output' = None, success_criteria = None, follow_up = None \<rparr>"]
  by (simp add: js_def)

section \<open>Properties of detectIntent\<close>

lemma normalize_VString: "normalize toLowerCase (VString s) = Inr (trim (toLowerCase s))"
  by (simp add: normalize_def)

lemma matchHere_iff:
  "matchHere alts seen rest \<longleftrightarrow>
     wordBoundary seen rest \<and>
     (\<exists>w post. w \<in> set alts \<and> rest = w @ post \<and> wordBoundary (seen @ w) post)"
  by (auto simp: matchHere_def list_ex_iff prefix_def)

lemma searchFrom_iff:
  "searchFrom alts seen rest \<longleftrightarrow> (\<exists>a b. rest = a @ b \<and> matchHere alts (seen @ a) b)"
proof (induction rest arbitrary: seen)
  case Nil
  then show ?case by simp
next
  case (Cons c cs)
  show ?case
  proof
    assume "searchFrom alts seen (c # cs)"
    then consider "matchHere alts seen (c # cs)" | "searchFrom alts (seen @ [c]) cs"
      by auto
    then show "\<exists>a b. c # cs = a @ b \<and> matchHere alts (seen @ a) b"
    proof cases
      case 1
      then have "c # cs = [] @ (c # cs) \<and> matchHere alts (seen @ []) (c # cs)" by simp
      then show ?thesis by blast
    next
      case 2
      then obtain a b where "cs = a @ b" "matchHere alts ((seen @ [c]) @ a) b"
        using Cons.IH by blast
      then have "c # cs = (c # a) @ b \<and> matchHere alts (seen @ (c # a)) b" by simp
      then show ?thesis by blast
    qed
  next
    assume "\<exists>a b. c # cs = a @ b \<and> matchHere alts (seen @ a) b"
    then obtain a b where ab: "c # cs = a @ b" "matchHere alts (seen @ a) b" by blast
    show "searchFrom alts seen (c # cs)"
    proof (cases a)
      case Nil
      with ab have "matchHere alts seen (c # cs)" by auto
      then show ?thesis by simp
    next
      case (Cons x a')
      with ab have "cs = a' @ b" "matchHere alts ((seen @ [c]) @ a') b" by simp_all
      then have "searchFrom alts (seen @ [c]) cs" using Cons.IH by blast
      then show ?thesis by simp
    qed
  qed
qed

text \<open>
  What \<open>test\<close> decides: some alternative occurs in the text with a word boundary on
  each side of the occurrence.
\<close>

lemma regexTest_iff:
  "regexTest alts n \<longleftrightarrow>
     (\<exists>pre w post. n = pre @ w @ post \<and> w \<in> set alts \<and>
        wordBoundary pre (w @ post) \<and> wordBoundary (pre @ w) post)"
  unfolding regexTest_def searchFrom_iff matchHere_iff by auto

lemma regexTest_includes:
  "regexTest alts n \<Longrightarrow> \<exists>w. w \<in> set alts \<and> includes_str n w"
  unfolding regexTest_iff includes_str_iff by blast

lemma regexTest_Nil: "\<not> regexTest alts []"
  by (simp add: regexTest_def matchHere_def wordBoundary_def)

lemmas intent_tags_distinct =
  js_def [of "''ooo''"] js_def [of "''status_update''"] js_def [of "''product_req''"]
  js_def [of "''prd''"] js_def [of "''generic''"]

text \<open>
  C1. For every need string, \<open>detectIntent\<close> normalizes it (lower case, then trim) and
  tests the four patterns on the normalized text in the order \<open>ooo\<close>, \<open>status_update\<close>,
  \<open>product_req\<close>, \<open>prd\<close>. It returns the tag of the first pattern that has a match
  anywhere in that text, so a tag is returned exactly when its pattern matches and no
  earlier one does, and it returns \<open>generic\<close> exactly when none matches. In particular a
  text that matches both the out-of-office and the status-update pattern gives \<open>ooo\<close>.
\<close>

theorem detectIntent_first_match_wins:
  assumes "n = trim (toLowerCase s)"
  shows "normalize toLowerCase (VString s) = Inr n \<and>
    detectIntent toLowerCase (VString s) =
      Inr (if regexTest OOO_PATTERN n then js ''ooo''
           else if regexTest STATUS_PATTERN n then js ''status_update''
           else if regexTest PRODUCT_REQ_PATTERN n then js ''product_req''
           else if regexTest PRD_PATTERN n then js ''prd''
           else js ''generic'') \<and>
    (detectIntent toLowerCase (VString s) = Inr (js ''ooo'') \<longleftrightarrow> regexTest OOO_PATTERN n) \<and>
    (detectIntent toLowerCase (VString s) = Inr (js ''status_update'') \<longleftrightarrow>
       \<not> regexTest OOO_PATTERN n \<and> regexTest STATUS_PATTERN n) \<and>
    (detectIntent toLowerCase (VString s) = Inr (js ''product_req'') \<longleftrightarrow>
       \<not> regexTest OOO_PATTERN n \<and> \<not> regexTest STATUS_PATTERN n \<and>
       regexTest PRODUCT_REQ_PATTERN n) \<and>
    (detectIntent toLowerCase (VString s) = Inr (js ''prd'') \<longleftrightarrow>
       \<not> regexTest OOO_PATTERN n \<and> \<not> regexTest STATUS_PATTERN n \<and>
       \<not> regexTest PRODUCT_REQ_PATTERN n \<and> regexTest PRD_PATTERN n) \<and>
    (detectIntent toLowerCase (VString s) = Inr (js ''generic'') \<longleftrightarrow>
       \<not> regexTest OOO_PATTERN n \<and> \<not> regexTest STATUS_PATTERN n \<and>
       \<not> regexTest PRODUCT_REQ_PATTERN n \<and> \<not> regexTest PRD_PATTERN n) \<and>
    (regexTest OOO_PATTERN n \<and> regexTest STATUS_PATTERN n \<longrightarrow>
       detectIntent toLowerCase (VString s) = Inr (js ''ooo''))"
  using assms
  by (simp add: detectIntent_def normalize_VString intent_tags_distinct)

theorem detectIntent_first_match_wins_witness:
  "regexTest OOO_PATTERN
     (trim (toLowerCaseASCII (js ''weekly update: I'll be OOO Friday''))) \<and>
   regexTest STATUS_PATTERN
     (trim (toLowerCaseASCII (js ''weekly update: I'll be OOO Friday''))) \<and>
   detectIntent toLowerCaseASCII (VString (js ''weekly update: I'll be OOO Friday'')) =
     Inr (js ''ooo'')"
proof -
  have n: "trim (toLowerCaseASCII (js ''weekly update: I'll be OOO Friday'')) =
      js ''weekly update: i'll be ooo friday''"
    by (simp add: js_def trim_def toLowerCaseASCII_def isSpace_def)
  have ooo: "regexTest OOO_PATTERN (js ''weekly update: i'll be ooo friday'')"
    unfolding regexTest_iff
    by (rule exI [of _ "js ''weekly update: i'll be ''"], rule exI [of _ "js ''ooo''"],
        rule exI [of _ "js '' friday''"])
      (simp add: js_def wordBoundary_def isWordChar_def OOO_PATTERN_def)
  have status: "regexTest STATUS_PATTERN (js ''weekly update: i'll be ooo friday'')"
    unfolding regexTest_iff
    by (rule exI [of _ "js ''weekly ''"], rule exI [of _ "js ''update''"],
        rule exI [of _ "js '': i'll be ooo friday''"])
      (simp add: js_def wordBoundary_def isWordChar_def STATUS_PATTERN_def)
  from detectIntent_first_match_wins
    [of "js ''weekly update: i'll be ooo friday''" toLowerCaseASCII
        "js ''weekly update: I'll be OOO Friday''"] n ooo status
  show ?thesis by simp
qed

section \<open>Properties of the library matcher\<close>

subsection \<open>Tokens\<close>

text \<open>
  The tokens of a query are its maximal runs of characters that are not white space, in
  order: none is empty, none contains white space, and together they are the query with
  its white space removed.
\<close>

lemma splitSpaces_concat:
  "concat (splitSpaces inSep cur rest) = cur @ filter (\<lambda>c. \<not> isSpace c) rest"
  by (induction rest arbitrary: inSep cur) auto

lemma splitSpaces_no_space:
  "\<forall>c\<in>set cur. \<not> isSpace c \<Longrightarrow>
     \<forall>t\<in>set (splitSpaces inSep cur rest). \<forall>c\<in>set t. \<not> isSpace c"
proof (induction rest arbitrary: inSep cur)
  case Nil
  then show ?case by simp
next
  case (Cons a rest)
  show ?case
  proof (cases "isSpace a")
    case True
    have e: "\<forall>t\<in>set (splitSpaces True [] rest). \<forall>c\<in>set t. \<not> isSpace c"
      using Cons.IH [of "[]" True] by simp
    have c: "\<forall>t\<in>set (splitSpaces True cur rest). \<forall>c\<in>set t. \<not> isSpace c"
      using Cons.IH [OF Cons.prems, of True] .
    show ?thesis using True e c Cons.prems by (cases inSep) auto
  next
    case False
    then have "\<forall>c\<in>set (cur @ [a]). \<not> isSpace c" using Cons.prems by auto
    from Cons.IH [OF this, of False] show ?thesis using False by simp
  qed
qed

lemma tokenize_tokens:
  "t \<in> set (tokenize q) \<Longrightarrow> t \<noteq> [] \<and> (\<forall>c\<in>set t. \<not> isSpace c)"
  using splitSpaces_no_space [of "[]" False q] by (auto simp: tokenize_def)

lemma tokenize_concat: "concat (tokenize q) = filter (\<lambda>c. \<not> isSpace c) q"
proof -
  have "concat (filter (\<lambda>t. t \<noteq> []) xs) = concat xs" for xs :: "jsstring list"
    by (induction xs) auto
  then show ?thesis by (simp add: tokenize_def splitSpaces_concat)
qed

subsection \<open>The score of a record\<close>

lemmas eval_strings = js_def trim_def toLowerCaseASCII_def isSpace_def

lemma scoreTokens_count:
  "scoreTokens hay tokens k = k + length (filter (\<lambda>tok. includes_str hay tok) tokens)"
  by (induction tokens arbitrary: k) simp_all

lemma haystack_total:
  "haystack toLowerCase p =
     Inr (trim (toLowerCase (orEmpty (title p) @ js '' '' @ orEmpty (instruction p) @ js '' '' @
       orEmpty (output' p))))"
  by (simp add: haystack_def normalize_VString)

lemma scoreRecord_total: "\<exists>k. scoreRecord toLowerCase tokens p = Inr k"
  by (simp add: scoreRecord_def haystack_total)

lemma releasenotes_tokens:
  "tokenize (trim (toLowerCaseASCII (js ''releasenotes''))) = [js ''releasenotes'']"
  by (simp add: eval_strings tokenize_def)

text \<open>
  C3, as stated, fails. The claim builds the haystack by normalizing the concatenation
  of the three fields. The code puts a space between the fields, so a token cannot match
  across two of them: for the record with title \<open>Release\<close> and instruction
  \<open>notes template\<close>, the query \<open>releasenotes\<close> scores 0 in the code and 1 on the
  concatenation \<open>releasenotes template\<close>.
\<close>

theorem score_concatenation_counterexample:
  "scoreRecord toLowerCaseASCII (tokenize (trim (toLowerCaseASCII (js ''releasenotes''))))
     releaseNotes = Inr 0 \<and>
   spec_score toLowerCaseASCII (tokenize (trim (toLowerCaseASCII (js ''releasenotes''))))
     releaseNotes = 1"
proof -
  have a: "scoreRecord toLowerCaseASCII [js ''releasenotes''] releaseNotes = Inr 0"
    by (simp add: scoreRecord_def haystack_def normalize_def releaseNotes_def orEmpty_def
        eval_strings)
  have b: "spec_score toLowerCaseASCII [js ''releasenotes''] releaseNotes = 1"
    by (simp add: spec_score_def spec_haystack_def releaseNotes_def orEmpty_def eval_strings)
  show ?thesis by (simp only: releasenotes_tokens a b)
qed

text \<open>
  C3, amended. The haystack of a record is the normalized text made of its title,
  instruction and output fields joined by single spaces, a missing field counting as the
  empty string. For every list of tokens, and so for the raw list of the white-space-split
  tokens of the normalized need that \<open>bestLibraryMatch\<close> passes, the score of the record
  is the number of entries of the list that occur in the haystack as a substring. The
  list is not deduplicated: a token repeated \<open>k\<close> times adds \<open>k\<close> when it matches. To
  match is to occur anywhere in the haystack, not to be a whole word of it.
\<close>

theorem scoreRecord_counts_matching_tokens:
  assumes "hay = trim (toLowerCase
      ((case title p of None \<Rightarrow> [] | Some s \<Rightarrow> s) @ js '' '' @
       (case instruction p of None \<Rightarrow> [] | Some s \<Rightarrow> s) @ js '' '' @
       (case output' p of None \<Rightarrow> [] | Some s \<Rightarrow> s)))"
  shows "haystack toLowerCase p = Inr hay \<and>
    scoreRecord toLowerCase tokens p =
      Inr (length (filter (\<lambda>tok. includes_str hay tok) tokens)) \<and>
    scoreRecord toLowerCase (replicate k tok) p = Inr (if includes_str hay tok then k else 0) \<and>
    (includes_str hay tok \<longleftrightarrow> (\<exists>ps ss. hay = ps @ tok @ ss))"
proof -
  have f: "orEmpty x = (case x of None \<Rightarrow> [] | Some s \<Rightarrow> s)" for x
    by (simp add: orEmpty_def split: option.split)
  have h: "haystack toLowerCase p = Inr hay"
    using assms by (simp add: haystack_total f)
  have s: "scoreRecord toLowerCase toks p =
      Inr (length (filter (\<lambda>tok. includes_str hay tok) toks))" for toks
    by (simp add: scoreRecord_def h scoreTokens_count)
  show ?thesis
    using h s [of tokens] s [of "replicate k tok"] includes_str_iff [of hay tok]
    by simp
qed

theorem scoreRecord_counts_matching_tokens_witness:
  "scoreRecord toLowerCaseASCII
     (tokenize (trim (toLowerCaseASCII (js '' Release  xyz temp release ''))))
     releaseNotes = Inr 3 \<and>
   scoreRecord toLowerCaseASCII (replicate 2 (js ''release'')) releaseNotes = Inr 2"
proof -
  have hay: "js ''release notes template'' = trim (toLowerCaseASCII
      ((case title releaseNotes of None \<Rightarrow> [] | Some s \<Rightarrow> s) @ js '' '' @
       (case instruction releaseNotes of None \<Rightarrow> [] | Some s \<Rightarrow> s) @ js '' '' @
       (case output' releaseNotes of None \<Rightarrow> [] | Some s \<Rightarrow> s)))"
    by (simp add: releaseNotes_def eval_strings)
  have toks: "tokenize (trim (toLowerCaseASCII (js '' Release  xyz temp release ''))) =
      [js ''release'', js ''xyz'', js ''temp'', js ''release'']"
    by (simp add: eval_strings tokenize_def)
  have inc: "includes_str (js ''release notes template'') (js ''release'')"
    "\<not> includes_str (js ''release notes template'') (js ''xyz'')"
    "includes_str (js ''release notes template'') (js ''temp'')"
    by (simp_all add: js_def)
  from scoreRecord_counts_matching_tokens
    [where hay = "js ''release notes template''" and toLowerCase = toLowerCaseASCII
       and p = releaseNotes and k = 2 and tok = "js ''release''"
       and tokens = "[js ''release'', js ''xyz'', js ''temp'', js ''release'']", OF hay] inc
  show ?thesis unfolding toks by simp
qed

subsection \<open>The best match\<close>

text \<open>
  The loop over the library, when every record has a score: it returns the first record
  of the list whose score is the greatest of the list, when that is above the score it
  started with, and what it started with otherwise.
\<close>

lemma scanPrompts_result:
  assumes "\<forall>p\<in>set ps. scoreRecord toLowerCase tokens p = Inr (score p)"
  shows "scanPrompts toLowerCase tokens ps best bestScore =
     Inr (if \<exists>p\<in>set ps. bestScore < score p
          then (find (\<lambda>p. score p = Max (score ` set ps)) ps, Max (score ` set ps))
          else (best, bestScore))"
  using assms
proof (induction ps arbitrary: best bestScore)
  case Nil
  then show ?case by simp
next
  case (Cons p ps)
  have sp: "scoreRecord toLowerCase tokens p = Inr (score p)" using Cons.prems by simp
  have rest: "\<forall>p\<in>set ps. scoreRecord toLowerCase tokens p = Inr (score p)"
    using Cons.prems by simp
  note IH = Cons.IH [OF rest]
  show ?case
  proof (cases "bestScore < score p")
    case True
    show ?thesis
    proof (cases "\<exists>x\<in>set ps. score p < score x")
      case True
      then obtain x where x: "x \<in> set ps" "score p < score x" by blast
      then have ne: "set ps \<noteq> {}" by auto
      have "score x \<le> Max (score ` set ps)" using x by simp
      with x have lt: "score p < Max (score ` set ps)" by linarith
      then have M: "Max (score ` set (p # ps)) = Max (score ` set ps)"
        using ne by (simp add: max_def)
      show ?thesis using \<open>bestScore < score p\<close> True lt sp M IH [of "Some p" "score p"]
        by (auto simp del: Max_insert image_insert)
    next
      case False
      then have le: "\<forall>x\<in>set ps. score x \<le> score p" by auto
      have M: "Max (score ` set (p # ps)) = score p"
      proof (cases "ps = []")
        case True
        then show ?thesis by simp
      next
        case False
        then have "Max (score ` set ps) \<le> score p" using le by simp
        then show ?thesis using False by (simp add: max_absorb1)
      qed
      show ?thesis using \<open>bestScore < score p\<close> False sp M IH [of "Some p" "score p"]
        by (auto simp del: Max_insert image_insert)
    qed
  next
    case False
    show ?thesis
    proof (cases "\<exists>x\<in>set ps. bestScore < score x")
      case True
      then obtain x where x: "x \<in> set ps" "bestScore < score x" by blast
      then have ne: "set ps \<noteq> {}" by auto
      have "score x \<le> Max (score ` set ps)" using x by simp
      with x \<open>\<not> bestScore < score p\<close> have lt: "score p < Max (score ` set ps)"
        by linarith
      then have M: "Max (score ` set (p # ps)) = Max (score ` set ps)"
        using ne by (simp add: max_def)
      show ?thesis using \<open>\<not> bestScore < score p\<close> True lt sp M IH [of best bestScore]
        by (auto simp del: Max_insert image_insert)
    next
      case F2: False
      show ?thesis using \<open>\<not> bestScore < score p\<close> F2 sp IH [of best bestScore]
        by (auto simp del: Max_insert image_insert)
    qed
  qed
qed

lemma scanPrompts_member:
  "scanPrompts toLowerCase tokens ps best bestScore = Inr (b, m) \<Longrightarrow>
     b = best \<or> (\<exists>p\<in>set ps. b = Some p)"
proof (induction ps arbitrary: best bestScore)
  case Nil
  then show ?case by simp
next
  case (Cons p ps)
  then show ?case
    by (fastforce split: sum.splits if_splits)
qed

lemma scanPrompts_total:
  "\<exists>r. scanPrompts toLowerCase tokens ps best bestScore = Inr r"
proof (induction ps arbitrary: best bestScore)
  case Nil
  then show ?case by simp
next
  case (Cons p ps)
  obtain k where "scoreRecord toLowerCase tokens p = Inr k"
    using scoreRecord_total by blast
  then show ?case using Cons.IH by simp
qed

text \<open>
  C2. Let \<open>q\<close> be the normalized need and \<open>score\<close> the score of each record of the
  library for the tokens of \<open>q\<close>. \<open>bestLibraryMatch\<close> returns none exactly when \<open>q\<close> is
  empty, or the library is empty, or the greatest score over the library is 0. In every
  other case it returns the first record, in the order of the library, whose score is
  that greatest score; nothing else breaks a tie.
\<close>

theorem bestLibraryMatch_first_maximum:
  assumes q: "q = trim (toLowerCase need)"
    and sc: "\<forall>p\<in>set (PROMPTS st). scoreRecord toLowerCase (tokenize q) p = Inr (score p)"
  shows "(fst (bestLibraryMatch toLowerCase (VString need) st) = Inr None \<longleftrightarrow>
       q = [] \<or> PROMPTS st = [] \<or> Max (score ` set (PROMPTS st)) = 0) \<and>
    (q \<noteq> [] \<and> PROMPTS st \<noteq> [] \<and> 0 < Max (score ` set (PROMPTS st)) \<longrightarrow>
       (\<exists>p. find (\<lambda>p. score p = Max (score ` set (PROMPTS st))) (PROMPTS st) = Some p \<and>
            fst (bestLibraryMatch toLowerCase (VString need) st) = Inr (Some p)))"
proof (cases "q = [] \<or> PROMPTS st = []")
  case True
  then show ?thesis using q by (auto simp: bestLibraryMatch_def normalize_VString)
next
  case False
  let ?lib = "PROMPTS st"
  let ?M = "Max (score ` set ?lib)"
  from False have ne: "score ` set ?lib \<noteq> {}" and fin: "finite (score ` set ?lib)" by auto
  have gr: "(\<exists>p\<in>set ?lib. 0 < score p) \<longleftrightarrow> 0 < ?M"
    using Max_gr_iff [OF fin ne, of 0] by auto
  have "?M \<in> score ` set ?lib" using Max_in [OF fin ne] .
  then obtain p0 where "p0 \<in> set ?lib" "score p0 = ?M" by auto
  then have "find (\<lambda>p. score p = ?M) ?lib \<noteq> None" by (auto simp: find_None_iff)
  then obtain p where p: "find (\<lambda>p. score p = ?M) ?lib = Some p" by auto
  have scan: "scanPrompts toLowerCase (tokenize q) ?lib None 0 =
      Inr (if 0 < ?M then (Some p, ?M) else (None, 0))"
    using scanPrompts_result [OF sc, of None 0] gr p by simp
  show ?thesis
    using False q p scan by (auto simp: bestLibraryMatch_def normalize_VString)
qed

lemma example_scores:
  "scoreRecord toLowerCaseASCII [js ''planning''] recordA = Inr 0"
  "scoreRecord toLowerCaseASCII [js ''planning''] recordB = Inr 1"
  "scoreRecord toLowerCaseASCII [js ''planning''] recordC = Inr 1"
  by (simp_all add: scoreRecord_def haystack_def normalize_def recordA_def recordB_def
      recordC_def orEmpty_def eval_strings)

lemma example_query:
  "trim (toLowerCaseASCII (js '' Planning '')) = js ''planning''"
  "tokenize (js ''planning'') = [js ''planning'']"
  by (simp_all add: eval_strings tokenize_def)

lemma example_nonempty: "js ''planning'' \<noteq> []"
  by (simp add: js_def)

lemma example_records_distinct: "recordA \<noteq> recordB" "recordA \<noteq> recordC" "recordB \<noteq> recordC"
  by (simp_all add: recordA_def recordB_def recordC_def js_def)

theorem bestLibraryMatch_first_maximum_witness:
  "fst (bestLibraryMatch toLowerCaseASCII (VString (js '' Planning '')) exampleState) =
     Inr (Some recordB)"
proof -
  let ?score = "\<lambda>p. if p = recordA then 0 else (1::nat)"
  have q: "js ''planning'' = trim (toLowerCaseASCII (js '' Planning ''))"
    by (simp add: example_query)
  have sc: "\<forall>p\<in>set (PROMPTS exampleState).
      scoreRecord toLowerCaseASCII (tokenize (js ''planning'')) p = Inr (?score p)"
    by (simp add: exampleState_def example_query example_scores example_records_distinct
        example_records_distinct [symmetric])
  have M: "Max (?score ` set (PROMPTS exampleState)) = 1"
    by (simp add: exampleState_def example_records_distinct example_records_distinct [symmetric])
  have f: "find (\<lambda>p. ?score p = 1) (PROMPTS exampleState) = Some recordB"
    by (simp add: exampleState_def example_records_distinct example_records_distinct [symmetric])
  have ne: "js ''planning'' \<noteq> []" "PROMPTS exampleState \<noteq> []"
    by (simp_all add: example_nonempty exampleState_def)
  from bestLibraryMatch_first_maximum [OF q sc] ne
  show ?thesis unfolding M f by simp
qed

lemma example_match:
  "bestLibraryMatch toLowerCaseASCII (VString (js '' Planning '')) exampleState =
     (Inr (Some recordB), exampleState)"
  by (simp add: bestLibraryMatch_def normalize_VString example_query example_scores
      exampleState_def example_nonempty)

text \<open>
  C9. For every need, a string or not, and every library: when \<open>bestLibraryMatch\<close>
  returns a record, that record is an element of the library, as it stands there, and
  the call leaves \<open>PROMPTS\<close> as it found it, whatever it returns.
\<close>

theorem bestLibraryMatch_returns_library_record:
  "snd (bestLibraryMatch toLowerCase need st) = st \<and>
   (\<forall>r. fst (bestLibraryMatch toLowerCase need st) = Inr (Some r) \<longrightarrow> r \<in> set (PROMPTS st))"
proof -
  have "r \<in> set (PROMPTS st)" if "fst (bestLibraryMatch toLowerCase need st) = Inr (Some r)" for r
    using that scanPrompts_member [of toLowerCase _ "PROMPTS st" None 0]
    by (fastforce simp: bestLibraryMatch_def split: sum.splits if_splits prod.splits)
  moreover have "snd (bestLibraryMatch toLowerCase need st) = st"
    by (simp add: bestLibraryMatch_def split: sum.splits prod.splits)
  ultimately show ?thesis by blast
qed

theorem bestLibraryMatch_returns_library_record_witness:
  "fst (bestLibraryMatch toLowerCaseASCII (VString (js '' Planning '')) exampleState) =
     Inr (Some recordB) \<and>
   recordB \<in> set (PROMPTS exampleState) \<and>
   snd (bestLibraryMatch toLowerCaseASCII (VString (js '' Planning '')) exampleState) =
     exampleState"
  using bestLibraryMatch_returns_library_record
    [of toLowerCaseASCII "VString (js '' Planning '')" exampleState] example_match
  by simp

section \<open>Properties of the dispatch\<close>

lemma detectIntent_String_total:
  "\<exists>intent. detectIntent toLowerCase (VString s) = Inr intent \<and>
     intent \<in> set [js ''ooo'', js ''status_update'', js ''product_req'', js ''prd'', js ''generic'']"
  by (simp add: detectIntent_def normalize_VString)

lemma renderResult_same: "renderResult (gtitle g) (gtext g) = g"
  by (simp add: renderResult_def)

text \<open>
  C7. When the need read from the page is not empty once trimmed, the handler detects
  one of the five intents and shows what \<open>buildForIntent\<close> builds for it, so it always
  shows a \<open>{title, text}\<close>. The switch sends \<open>ooo\<close>, \<open>status_update\<close>, \<open>product_req\<close>
  and \<open>prd\<close> each to its own builder, and every other value of the intent to the generic
  builder.
\<close>

theorem generateFromNeed_dispatch:
  assumes "need = trim needInput" and "need \<noteq> []"
  shows "(\<exists>intent. detectIntent toLowerCase (VString need) = Inr intent \<and>
       intent \<in> set [js ''ooo'', js ''status_update'', js ''product_req'', js ''prd'',
         js ''generic''] \<and>
       generateFromNeedClick toLowerCase needInput tone length' format =
         Inr (buildForIntent intent need tone length' format)) \<and>
    buildForIntent (js ''ooo'') need tone length' format =
      buildOOOPrompt need tone length' format \<and>
    buildForIntent (js ''status_update'') need tone length' format =
      buildStatusUpdatePrompt need tone length' format \<and>
    buildForIntent (js ''product_req'') need tone length' format =
      buildProductReqPrompt need tone length' format \<and>
    buildForIntent (js ''prd'') need tone length' format =
      buildPrdPrompt need tone length' format \<and>
    (\<forall>intent. intent \<notin> set [js ''ooo'', js ''status_update'', js ''product_req'', js ''prd''] \<longrightarrow>
       buildForIntent intent need tone length' format =
         buildGenericPrompt need tone length' format)"
proof -
  obtain intent where i: "detectIntent toLowerCase (VString need) = Inr intent"
    "intent \<in> set [js ''ooo'', js ''status_update'', js ''product_req'', js ''prd'', js ''generic'']"
    using detectIntent_String_total by blast
  have "generateFromNeedClick toLowerCase needInput tone length' format =
      Inr (buildForIntent intent need tone length' format)"
    using assms i(1) by (simp add: generateFromNeedClick_def Let_def renderResult_same)
  with i have first: "\<exists>intent. detectIntent toLowerCase (VString need) = Inr intent \<and>
       intent \<in> set [js ''ooo'', js ''status_update'', js ''product_req'', js ''prd'',
         js ''generic''] \<and>
       generateFromNeedClick toLowerCase needInput tone length' format =
         Inr (buildForIntent intent need tone length' format)"
    by blast
  have rest: "buildForIntent (js ''ooo'') need tone length' format =
      buildOOOPrompt need tone length' format"
    "buildForIntent (js ''status_update'') need tone length' format =
      buildStatusUpdatePrompt need tone length' format"
    "buildForIntent (js ''product_req'') need tone length' format =
      buildProductReqPrompt need tone length' format"
    "buildForIntent (js ''prd'') need tone length' format =
      buildPrdPrompt need tone length' format"
    "\<forall>intent. intent \<notin> set [js ''ooo'', js ''status_update'', js ''product_req'', js ''prd''] \<longrightarrow>
       buildForIntent intent need tone length' format =
         buildGenericPrompt need tone length' format"
    by (simp_all add: buildForIntent_def intent_tags_distinct)
  from first rest show ?thesis by blast
qed

lemma example_ooo:
  "trim (js '' ooo friday '') = js ''ooo friday''"
  "toLowerCaseASCII (js ''ooo friday'') = js ''ooo friday''"
  "trim (js ''ooo friday'') = js ''ooo friday''"
  "js ''ooo friday'' \<noteq> []"
  by (simp_all add: eval_strings)

lemma example_ooo_match: "regexTest OOO_PATTERN (js ''ooo friday'')"
  unfolding regexTest_iff
  by (rule exI [of _ "[]"], rule exI [of _ "js ''ooo''"], rule exI [of _ "js '' friday''"])
    (simp add: js_def wordBoundary_def isWordChar_def OOO_PATTERN_def)

theorem generateFromNeed_dispatch_witness:
  "generateFromNeedClick toLowerCaseASCII (js '' ooo friday '') (js ''friendly'') (js ''short'')
     (js ''email'') =
   Inr (buildOOOPrompt (js ''ooo friday'') (js ''friendly'') (js ''short'') (js ''email''))"
proof -
  have d: "detectIntent toLowerCaseASCII (VString (js ''ooo friday'')) = Inr (js ''ooo'')"
    by (simp add: detectIntent_def normalize_VString example_ooo example_ooo_match)
  from generateFromNeed_dispatch
    [of "js ''ooo friday''" "js '' ooo friday ''" toLowerCaseASCII "js ''friendly''"
        "js ''short''" "js ''email''"] d
  show ?thesis by (auto simp: example_ooo)
qed

section \<open>Totality\<close>

lemma pattern_words_start_with_letter:
  "w \<in> set (OOO_PATTERN @ STATUS_PATTERN @ PRODUCT_REQ_PATTERN @ PRD_PATTERN) \<Longrightarrow>
     w \<noteq> [] \<and> isWordChar (hd w)"
  by (auto simp: OOO_PATTERN_def STATUS_PATTERN_def PRODUCT_REQ_PATTERN_def PRD_PATTERN_def
      js_def isWordChar_def)

lemma no_word_char_no_match:
  assumes "\<forall>c\<in>set n. \<not> isWordChar c"
    and "set alts \<subseteq> set (OOO_PATTERN @ STATUS_PATTERN @ PRODUCT_REQ_PATTERN @ PRD_PATTERN)"
  shows "\<not> regexTest alts n"
proof
  assume "regexTest alts n"
  then obtain pre w post where m: "n = pre @ w @ post" "w \<in> set alts"
    unfolding regexTest_iff by blast
  with assms(2) have "w \<noteq> [] \<and> isWordChar (hd w)"
    using pattern_words_start_with_letter by blast
  moreover from this m(1) have "hd w \<in> set n" by (cases w) auto
  ultimately show False using assms(1) by blast
qed

lemma generateFromLibraryClick_total:
  "\<exists>g. fst (generateFromLibraryClick toLowerCase s st) = Inr g"
proof -
  obtain r where "scanPrompts toLowerCase (tokenize (trim (toLowerCase (trim s)))) (PROMPTS st)
      None 0 = Inr r"
    using scanPrompts_total by blast
  then show ?thesis
    by (cases r)
      (auto simp: generateFromLibraryClick_def bestLibraryMatch_def normalize_VString Let_def
        split: option.splits)
qed

text \<open>
  On a library of records the core functions return a value on every string and do not
  raise: \<open>detectIntent\<close> and \<open>bestLibraryMatch\<close> return normally, and both handlers,
  which call the builders and \<open>formatLibraryPrompt\<close>, show a result. The need is never
  used as a pattern, so the metacharacters of regular expressions mean nothing in it.
  \<open>detectIntent\<close> answers \<open>generic\<close> when the normalized text is empty, which covers
  the empty and the white-space-only need, and when it has no word character at all.
\<close>

lemma total_on_strings_over_records:
  "(\<exists>intent. detectIntent toLowerCase (VString s) = Inr intent) \<and>
   (\<exists>m. fst (bestLibraryMatch toLowerCase (VString s) st) = Inr m) \<and>
   (\<exists>g. generateFromNeedClick toLowerCase s tone length' format = Inr g) \<and>
   (\<exists>g. fst (generateFromLibraryClick toLowerCase s st) = Inr g) \<and>
   (trim (toLowerCase s) = [] \<longrightarrow>
      detectIntent toLowerCase (VString s) = Inr (js ''generic'')) \<and>
   ((\<forall>c\<in>set (trim (toLowerCase s)). \<not> isWordChar c) \<longrightarrow>
      detectIntent toLowerCase (VString s) = Inr (js ''generic''))"
proof (intro conjI)
  show "\<exists>intent. detectIntent toLowerCase (VString s) = Inr intent"
    using detectIntent_String_total by blast
  show "\<exists>m. fst (bestLibraryMatch toLowerCase (VString s) st) = Inr m"
    using scanPrompts_total [of toLowerCase "tokenize (trim (toLowerCase s))" "PROMPTS st" None 0]
    by (auto simp: bestLibraryMatch_def normalize_VString)
  show "\<exists>g. generateFromNeedClick toLowerCase s tone length' format = Inr g"
    using detectIntent_String_total [of toLowerCase "trim s"]
    by (auto simp: generateFromNeedClick_def Let_def)
  show "\<exists>g. fst (generateFromLibraryClick toLowerCase s st) = Inr g"
    by (rule generateFromLibraryClick_total)
  show "trim (toLowerCase s) = [] \<longrightarrow>
      detectIntent toLowerCase (VString s) = Inr (js ''generic'')"
    by (simp add: detectIntent_def normalize_VString regexTest_Nil)
  show "(\<forall>c\<in>set (trim (toLowerCase s)). \<not> isWordChar c) \<longrightarrow>
      detectIntent toLowerCase (VString s) = Inr (js ''generic'')"
  proof
    assume nw: "\<forall>c\<in>set (trim (toLowerCase s)). \<not> isWordChar c"
    have sub:
      "set OOO_PATTERN \<subseteq>
         set (OOO_PATTERN @ STATUS_PATTERN @ PRODUCT_REQ_PATTERN @ PRD_PATTERN)"
      "set STATUS_PATTERN \<subseteq>
         set (OOO_PATTERN @ STATUS_PATTERN @ PRODUCT_REQ_PATTERN @ PRD_PATTERN)"
      "set PRODUCT_REQ_PATTERN \<subseteq>
         set (OOO_PATTERN @ STATUS_PATTERN @ PRODUCT_REQ_PATTERN @ PRD_PATTERN)"
      "set PRD_PATTERN \<subseteq>
         set (OOO_PATTERN @ STATUS_PATTERN @ PRODUCT_REQ_PATTERN @ PRD_PATTERN)"
      by auto
    have "\<not> regexTest OOO_PATTERN (trim (toLowerCase s))"
      "\<not> regexTest STATUS_PATTERN (trim (toLowerCase s))"
      "\<not> regexTest PRODUCT_REQ_PATTERN (trim (toLowerCase s))"
      "\<not> regexTest PRD_PATTERN (trim (toLowerCase s))"
      by (rule no_word_char_no_match [OF nw sub(1)], rule no_word_char_no_match [OF nw sub(2)],
          rule no_word_char_no_match [OF nw sub(3)], rule no_word_char_no_match [OF nw sub(4)])
    then show "detectIntent toLowerCase (VString s) = Inr (js ''generic'')"
      by (simp add: detectIntent_def normalize_VString)
  qed
qed

lemma generic_on_empty_and_metacharacters:
  "detectIntent toLowerCaseASCII (VString (js '' .*+?^$(){}|[] '')) = Inr (js ''generic'') \<and>
   detectIntent toLowerCaseASCII (VString (js ''   '')) = Inr (js ''generic'') \<and>
   detectIntent toLowerCaseASCII (VString []) = Inr (js ''generic'')"
proof -
  have a: "trim (toLowerCaseASCII (js '' .*+?^$(){}|[] '')) = js ''.*+?^$(){}|[]''"
    by (simp add: eval_strings)
  have b: "\<forall>c\<in>set (js ''.*+?^$(){}|[]''). \<not> isWordChar c"
    by (simp add: js_def isWordChar_def)
  have c: "trim (toLowerCaseASCII (js ''   '')) = []"
    by (simp add: eval_strings)
  have d: "trim (toLowerCaseASCII []) = []"
    by (simp add: eval_strings)
  from total_on_strings_over_records [of toLowerCaseASCII "js '' .*+?^$(){}|[] ''"]
    total_on_strings_over_records [of toLowerCaseASCII "js ''   ''"]
    total_on_strings_over_records [of toLowerCaseASCII "[]"] a b c d
  show ?thesis by simp
qed

subsection \<open>A library with a null element\<close>

lemma scoreEntry_RecordEntry:
  "scoreEntry toLowerCase tokens (RecordEntry r) = scoreRecord toLowerCase tokens r"
  by (simp add: scoreEntry_def scoreRecord_def haystackOfEntry_def)

lemma scoreEntry_NullEntry: "scoreEntry toLowerCase tokens NullEntry = Inl TypeError"
  by (simp add: scoreEntry_def haystackOfEntry_def)

text \<open>On an array of records the loops over the stored array are the loops over records.\<close>

lemma scanEntries_records:
  "scanEntries toLowerCase tokens (map RecordEntry ps) (map_option RecordEntry best) bestScore =
     (case scanPrompts toLowerCase tokens ps best bestScore of
        Inl e \<Rightarrow> Inl e
      | Inr (b, m) \<Rightarrow> Inr (map_option RecordEntry b, m))"
proof (induction ps arbitrary: best bestScore)
  case Nil
  then show ?case by simp
next
  case (Cons p ps)
  obtain k where k: "scoreRecord toLowerCase tokens p = Inr k"
    using scoreRecord_total by blast
  show ?case
    using Cons.IH [of "Some p" k] Cons.IH [of best bestScore]
    by (simp add: scoreEntry_RecordEntry k)
qed

lemma bestLibraryMatchLoaded_records:
  "bestLibraryMatchLoaded toLowerCase need (map RecordEntry (PROMPTS st)) =
     (case fst (bestLibraryMatch toLowerCase need st) of
        Inl e \<Rightarrow> Inl e
      | Inr m \<Rightarrow> Inr (map_option RecordEntry m))"
  using scanEntries_records [of toLowerCase _ "PROMPTS st" None 0]
  by (auto simp: bestLibraryMatchLoaded_def bestLibraryMatch_def split: sum.splits prod.splits)

lemma scanEntries_null:
  "NullEntry \<in> set ps \<Longrightarrow> scanEntries toLowerCase tokens ps best bestScore = Inl TypeError"
proof (induction ps arbitrary: best bestScore)
  case Nil
  then show ?case by simp
next
  case (Cons p ps)
  show ?case
  proof (cases p)
    case NullEntry
    then show ?thesis by (simp add: scoreEntry_NullEntry)
  next
    case (RecordEntry r)
    obtain k where k: "scoreRecord toLowerCase tokens r = Inr k"
      using scoreRecord_total by blast
    from RecordEntry Cons.prems have "NullEntry \<in> set ps" by simp
    then show ?thesis
      using Cons.IH RecordEntry by (simp add: scoreEntry_RecordEntry k)
  qed
qed

text \<open>
  C6 says that every core function returns a value on every string and never raises.
  \<open>bestLibraryMatch\<close> does not on every library that \<open>loadPrompts\<close> can store: when the
  array of \<open>prompts.json\<close> has a \<open>null\<close> element, the call raises a TypeError for every
  string need that is not empty once normalized. No record before the \<open>null\<close> element
  ends the loop, so the element is always reached.
\<close>

theorem bestLibraryMatch_raises_on_null_entry:
  assumes "trim (toLowerCase s) \<noteq> []" and "NullEntry \<in> set data"
  shows "bestLibraryMatchLoaded toLowerCase (VString s) (loadPrompts (ArrayOf data)) =
    Inl TypeError"
proof -
  from assms(2) have "data \<noteq> []" by auto
  then show ?thesis
    using assms by (simp add: bestLibraryMatchLoaded_def loadPrompts_def normalize_VString
        scanEntries_null)
qed

theorem bestLibraryMatch_raises_on_null_entry_witness:
  "trim (toLowerCaseASCII (js ''planning'')) \<noteq> [] \<and>
   bestLibraryMatchLoaded toLowerCaseASCII (VString (js ''planning''))
     (loadPrompts (ArrayOf [RecordEntry recordB, NullEntry])) = Inl TypeError"
proof -
  have q: "trim (toLowerCaseASCII (js ''planning'')) \<noteq> []"
    by (simp add: js_def trim_def toLowerCaseASCII_def isSpace_def)
  have n: "NullEntry \<in> set [RecordEntry recordB, NullEntry]" by simp
  from bestLibraryMatch_raises_on_null_entry
    [where toLowerCase = toLowerCaseASCII and s = "js ''planning''"
       and data = "[RecordEntry recordB, NullEntry]", OF q n] q
  show ?thesis by blast
qed

section \<open>A need that is not a string\<close>

text \<open>
  A truthy value that is not a string makes \<open>normalize\<close> raise.
\<close>

lemma normalize_truthy_non_string:
  "toBoolean v \<Longrightarrow> \<forall>s. v \<noteq> VString s \<Longrightarrow> normalize toLowerCase v = Inl TypeError"
  by (cases v) (simp_all add: normalize_def)

text \<open>
  C10. For every falsy need (\<open>undefined\<close>, \<open>null\<close>, \<open>false\<close>, a zero, \<open>NaN\<close>, the
  empty string), \<open>normalize\<close> takes the empty string in its place and returns the empty
  text, \<open>detectIntent\<close> returns \<open>generic\<close>, and \<open>bestLibraryMatch\<close> returns none and
  leaves the state alone. The one fact used of the case conversion is that it maps the
  empty string to the empty string.
\<close>

theorem falsy_need_is_empty_text:
  assumes "\<not> toBoolean v" and "toLowerCase [] = []"
  shows "normalize toLowerCase v = Inr [] \<and>
    detectIntent toLowerCase v = Inr (js ''generic'') \<and>
    bestLibraryMatch toLowerCase v st = (Inr None, st)"
proof -
  have n: "normalize toLowerCase v = Inr []"
    using assms by (simp add: normalize_def trim_def)
  then show ?thesis
    by (simp add: detectIntent_def bestLibraryMatch_def regexTest_Nil)
qed

theorem falsy_need_is_empty_text_witness:
  "detectIntent toLowerCaseASCII VNull = Inr (js ''generic'') \<and>
   detectIntent toLowerCaseASCII VUndefined = Inr (js ''generic'') \<and>
   detectIntent toLowerCaseASCII (VNumber (Double True 0 0)) = Inr (js ''generic'') \<and>
   bestLibraryMatch toLowerCaseASCII (VNumber (Double False 0x7FF 1)) exampleState =
     (Inr None, exampleState) \<and>
   bestLibraryMatch toLowerCaseASCII (VBoolean False) exampleState = (Inr None, exampleState)"
proof -
  have lc: "toLowerCaseASCII [] = []" by (simp add: toLowerCaseASCII_def)
  have f: "\<not> toBoolean VNull" "\<not> toBoolean VUndefined" "\<not> toBoolean (VNumber (Double True 0 0))"
    "\<not> toBoolean (VNumber (Double False 0x7FF 1))" "\<not> toBoolean (VBoolean False)"
    by (simp_all add: isZero_def isNaN_def)
  note th = falsy_need_is_empty_text [where toLowerCase = toLowerCaseASCII and st = exampleState]
  from th [OF f(1) lc] th [OF f(2) lc] th [OF f(3) lc] th [OF f(4) lc] th [OF f(5) lc]
  show ?thesis by simp
qed

end
